theory Spec2Isabelle
  imports Main "HOL-Library.AList" "HOL-Library.Word"
begin

section \<open>JavaScript values as the Node-API hands them to the binding\<close>

text \<open>
  The binding \<^verbatim>\<open>webrtc_binding.cc\<close> sees the scripting host only through
  the C++ wrapper classes \<^verbatim>\<open>Napi::Value\<close>, \<^verbatim>\<open>Napi::Object\<close> and
  \<^verbatim>\<open>Napi::CallbackInfo\<close>. The ten cases of \<^verbatim>\<open>napi_valuetype\<close> are the
  dynamic types a value can have.
\<close>

datatype napi_valuetype =
    napi_undefined
  | napi_null
  | napi_boolean
  | napi_number
  | napi_string
  | napi_symbol
  | napi_object
  | napi_function
  | napi_external
  | napi_bigint

text \<open>
  A value carries its payload. A number is the bit pattern of its IEEE 754 double, which
  the binding never inspects; a symbol and an external are identified by a number; a
  function is named by the native callback behind it.

  An object is what the host makes of the two questions the binding asks of it, whether
  it has a property and what the property's value is. Either question is a call into the
  host: it may run script code, so it may throw, and it may leave the object changed.
  \<^item> An ordinary object is its list of properties, in insertion order, own and inherited
    alike. A data property holds a value. An accessor property is given by what the next
    call of its getter does: the outcome, \<open>Inr v\<close> when the getter returns \<open>v\<close> and
    \<open>Inl e\<close> when it throws \<open>e\<close>, and the object that the call leaves behind
    (\<open>None\<close> when the getter changes nothing).
  \<^item> An exotic object (a proxy) answers through its two traps. A trap maps the property
    name to the outcome of the call and to the object left behind; the outcome of the
    \<^verbatim>\<open>has\<close> trap is a boolean or a thrown value.
\<close>

datatype jsvalue =
    JSUndefined
  | JSNull
  | JSBoolean bool
  | JSNumber "64 word"
  | JSString string
  | JSSymbol nat
  | JSObject jsobject
  | JSFunction string jsobject
  | JSExternal nat
  | JSBigInt int
and jsobject =
    Ordinary "(string \<times> jsprop) list"
  | Exotic "string \<Rightarrow> (jsvalue + bool) \<times> jsobject option"
           "string \<Rightarrow> (jsvalue + jsvalue) \<times> jsobject option"
and jsprop =
    DataProp jsvalue
  | AccessorProp "jsvalue + jsvalue" "jsobject option"

type_synonym props = "(string \<times> jsprop) list"

text \<open>
  A call into the host either returns or leaves a JavaScript exception pending. No further
  call into the host runs while an exception is pending, the result of the native callback
  is then discarded, and the exception is thrown in the calling script. \<open>Inl e\<close> is the
  thrown value \<open>e\<close>.
\<close>

type_synonym 'a napi_result = "jsvalue + 'a"

definition napi_bind :: "'a napi_result \<Rightarrow> ('a \<Rightarrow> 'b napi_result) \<Rightarrow> 'b napi_result" where
  "napi_bind m f = (case m of Inl e \<Rightarrow> Inl e | Inr x \<Rightarrow> f x)"

text \<open>
  A computation that calls into the host about the argument object takes the object as it
  is and gives it back as the calls have left it.
\<close>

type_synonym 'a host_call = "jsobject \<Rightarrow> 'a napi_result \<times> jsobject"

definition call_return :: "'a \<Rightarrow> 'a host_call" where
  "call_return x = (\<lambda>init. (Inr x, init))"

definition call_bind :: "'a host_call \<Rightarrow> ('a \<Rightarrow> 'b host_call) \<Rightarrow> 'b host_call" where
  "call_bind m f =
     (\<lambda>init. case m init of
        (Inl e, init') \<Rightarrow> (Inl e, init')
      | (Inr x, init') \<Rightarrow> f x init')"

subsection \<open>\<^verbatim>\<open>Napi::Value\<close>\<close>

fun Value_Type :: "jsvalue \<Rightarrow> napi_valuetype" where
  "Value_Type JSUndefined = napi_undefined"
| "Value_Type JSNull = napi_null"
| "Value_Type (JSBoolean b) = napi_boolean"
| "Value_Type (JSNumber d) = napi_number"
| "Value_Type (JSString s) = napi_string"
| "Value_Type (JSSymbol i) = napi_symbol"
| "Value_Type (JSObject obj) = napi_object"
| "Value_Type (JSFunction f obj) = napi_function"
| "Value_Type (JSExternal p) = napi_external"
| "Value_Type (JSBigInt n) = napi_bigint"

definition Value_IsFunction :: "jsvalue \<Rightarrow> bool" where
  "Value_IsFunction v = (Value_Type v = napi_function)"

definition Value_IsObject :: "jsvalue \<Rightarrow> bool" where
  "Value_IsObject v = (Value_Type v = napi_object \<or> Value_IsFunction v)"

text \<open>
  \<^verbatim>\<open>As<Napi::Object>()\<close> is an unchecked cast. The binding casts only behind
  \<^verbatim>\<open>IsObject()\<close>, so the last equation is never reached from it.
\<close>

fun Value_As_Object :: "jsvalue \<Rightarrow> jsobject" where
  "Value_As_Object (JSObject obj) = obj"
| "Value_As_Object (JSFunction f obj) = obj"
| "Value_As_Object v = Ordinary []"

subsection \<open>\<^verbatim>\<open>Napi::Object\<close>\<close>

text \<open>
  \<^verbatim>\<open>Has\<close> asks whether the object has the property. An ordinary object answers
  from its properties and stays as it is; a proxy runs its \<^verbatim>\<open>has\<close> trap.
\<close>

fun Object_Has :: "jsobject \<Rightarrow> string \<Rightarrow> bool napi_result \<times> jsobject" where
  "Object_Has (Ordinary ps) k = (Inr (map_of ps k \<noteq> None), Ordinary ps)"
| "Object_Has (Exotic has get) k =
     (case has k of
        (r, None) \<Rightarrow> (r, Exotic has get)
      | (r, Some obj') \<Rightarrow> (r, obj'))"

text \<open>
  \<^verbatim>\<open>Get\<close> reads the property. On an ordinary object a missing property reads as
  \<^verbatim>\<open>undefined\<close>, a data property as its value, and an accessor property runs its
  getter; a proxy runs its \<^verbatim>\<open>get\<close> trap.
\<close>

fun Object_Get :: "jsobject \<Rightarrow> string \<Rightarrow> jsvalue napi_result \<times> jsobject" where
  "Object_Get (Ordinary ps) k =
     (case map_of ps k of
        None \<Rightarrow> (Inr JSUndefined, Ordinary ps)
      | Some (DataProp v) \<Rightarrow> (Inr v, Ordinary ps)
      | Some (AccessorProp r None) \<Rightarrow> (r, Ordinary ps)
      | Some (AccessorProp r (Some obj')) \<Rightarrow> (r, obj'))"
| "Object_Get (Exotic has get) k =
     (case get k of
        (r, None) \<Rightarrow> (r, Exotic has get)
      | (r, Some obj') \<Rightarrow> (r, obj'))"

text \<open>
  The binding creates objects and assigns to them, and to the module's export object.
  These are ordinary objects that no script can reach before the native function
  returns; each stands as its list of properties. Assignment replaces the value of a
  property in place or appends a new data property; an assignment that a setter or a
  read-only property would intercept is not modelled.
\<close>

definition Object_New :: "'e \<Rightarrow> props" where
  "Object_New env = []"

definition Object_Set :: "props \<Rightarrow> string \<Rightarrow> jsvalue \<Rightarrow> props" where
  "Object_Set obj k v = AList.update k (DataProp v) obj"

definition String_New :: "'e \<Rightarrow> string \<Rightarrow> jsvalue" where
  "String_New env s = JSString s"

definition Boolean_New :: "'e \<Rightarrow> bool \<Rightarrow> jsvalue" where
  "Boolean_New env b = JSBoolean b"

definition Function_New :: "'e \<Rightarrow> string \<Rightarrow> jsvalue" where
  "Function_New env cb = JSFunction cb (Ordinary [])"

subsection \<open>\<^verbatim>\<open>Napi::CallbackInfo\<close>\<close>

record 'e CallbackInfo =
  Env :: 'e
  argv :: "jsvalue list"

definition Length :: "'e CallbackInfo \<Rightarrow> nat" where
  "Length info = length (argv info)"

text \<open>\<^verbatim>\<open>info[i]\<close> is \<^verbatim>\<open>undefined\<close> from the number of arguments on.\<close>

definition arg :: "'e CallbackInfo \<Rightarrow> nat \<Rightarrow> jsvalue" where
  "arg info i = (if i < length (argv info) then argv info ! i else JSUndefined)"

section \<open>The binding\<close>

text \<open>
  \<^verbatim>\<open>PeerConnection::NewInstance\<close> and \<^verbatim>\<open>PeerConnection::Init\<close> are declared
  in \<^verbatim>\<open>peer_connection.h\<close>, which is not part of the sources at hand; the
  functions that call them take them as parameters.
\<close>

definition CreateRTCPeerConnection ::
    "('e \<Rightarrow> jsvalue \<Rightarrow> 'h napi_result) \<Rightarrow> 'e CallbackInfo \<Rightarrow> 'h napi_result" where
  "CreateRTCPeerConnection NewInstance info =
     (let env = Env info in
      NewInstance env (arg info 0))"

text \<open>
  The two descriptor factories. Each \<^verbatim>\<open>if (init.Has(k)) obj.Set(k, init.Get(k));\<close>
  is a computation on the argument object \<^verbatim>\<open>init\<close> that yields the record
  \<^verbatim>\<open>obj\<close> as the statement leaves it. The factory's outcome is the record it
  returns, or the exception thrown.
\<close>

definition CreateRTCSessionDescription :: "'e CallbackInfo \<Rightarrow> props napi_result" where
  "CreateRTCSessionDescription info =
     (let env = Env info;
          obj = Object_New env in
      if Length info > 0 \<and> Value_IsObject (arg info 0) then
        fst ((call_bind
               (call_bind (\<lambda>init. Object_Has init ''type'') (\<lambda>has.
                  if has
                  then call_bind (\<lambda>init. Object_Get init ''type'')
                         (\<lambda>v. call_return (Object_Set obj ''type'' v))
                  else call_return obj)) (\<lambda>obj.
              call_bind
               (call_bind (\<lambda>init. Object_Has init ''sdp'') (\<lambda>has.
                  if has
                  then call_bind (\<lambda>init. Object_Get init ''sdp'')
                         (\<lambda>v. call_return (Object_Set obj ''sdp'' v))
                  else call_return obj)) (\<lambda>obj.
              call_return obj)))
             (Value_As_Object (arg info 0)))
      else Inr obj)"

definition CreateRTCIceCandidate :: "'e CallbackInfo \<Rightarrow> props napi_result" where
  "CreateRTCIceCandidate info =
     (let env = Env info;
          obj = Object_New env in
      if Length info > 0 \<and> Value_IsObject (arg info 0) then
        fst ((call_bind
               (call_bind (\<lambda>init. Object_Has init ''candidate'') (\<lambda>has.
                  if has
                  then call_bind (\<lambda>init. Object_Get init ''candidate'')
                         (\<lambda>v. call_return (Object_Set obj ''candidate'' v))
                  else call_return obj)) (\<lambda>obj.
              call_bind
               (call_bind (\<lambda>init. Object_Has init ''sdpMLineIndex'') (\<lambda>has.
                  if has
                  then call_bind (\<lambda>init. Object_Get init ''sdpMLineIndex'')
                         (\<lambda>v. call_return (Object_Set obj ''sdpMLineIndex'' v))
                  else call_return obj)) (\<lambda>obj.
              call_bind
               (call_bind (\<lambda>init. Object_Has init ''sdpMid'') (\<lambda>has.
                  if has
                  then call_bind (\<lambda>init. Object_Get init ''sdpMid'')
                         (\<lambda>v. call_return (Object_Set obj ''sdpMid'' v))
                  else call_return obj)) (\<lambda>obj.
              call_return obj))))
             (Value_As_Object (arg info 0)))
      else Inr obj)"

text \<open>
  Module initialisation. The callbacks are exported as functions named by the callback
  they wrap.
\<close>

definition Init ::
    "('e \<Rightarrow> props \<Rightarrow> props napi_result) \<Rightarrow> 'e \<Rightarrow> props \<Rightarrow> props napi_result" where
  "Init PeerConnection_Init env exports =
     napi_bind (PeerConnection_Init env exports) (\<lambda>exports.
       let exports = Object_Set exports ''RTCPeerConnection''
                       (Function_New env ''CreateRTCPeerConnection'');
           exports = Object_Set exports ''RTCSessionDescription''
                       (Function_New env ''CreateRTCSessionDescription'');
           exports = Object_Set exports ''RTCIceCandidate''
                       (Function_New env ''CreateRTCIceCandidate'');
           exports = Object_Set exports ''version'' (String_New env ''1.0.0'');
           exports = Object_Set exports ''isNativeImplementation'' (Boolean_New env True)
       in Inr exports)"

text \<open>
  For the proofs, the statement that the factories repeat, with the property name and
  the record as parameters. The factories above are written out without it.
\<close>

definition copy_property :: "string \<Rightarrow> props \<Rightarrow> props host_call" where
  "copy_property k obj =
     call_bind (\<lambda>init. Object_Has init k) (\<lambda>has.
       if has
       then call_bind (\<lambda>init. Object_Get init k) (\<lambda>v. call_return (Object_Set obj k v))
       else call_return obj)"

section \<open>Properties of the wrapper operations\<close>

lemma map_of_Set:
  "map_of (Object_Set obj k v) k' = (if k' = k then Some (DataProp v) else map_of obj k')"
  by (simp add: Object_Set_def update_conv')

lemma napi_bind_Inr: "napi_bind (Inr x) f = f x"
  by (simp add: napi_bind_def)

lemma arg_Cons: "arg \<lparr>Env = env, argv = a # rest\<rparr> 0 = a"
  by (simp add: arg_def)

lemma arg_Nil: "arg \<lparr>Env = env, argv = []\<rparr> 0 = JSUndefined"
  by (simp add: arg_def)

lemma Length_Cons: "Length \<lparr>Env = env, argv = a # rest\<rparr> > 0"
  by (simp add: Length_def)

lemma Length_Nil: "Length \<lparr>Env = env, argv = []\<rparr> = 0"
  by (simp add: Length_def)

lemmas info_simps = arg_Cons arg_Nil Length_Cons Length_Nil

section \<open>One statement of a factory\<close>

lemma copy_property_eq:
  "copy_property k obj s =
     (case Object_Has s k of
        (Inl e, s1) \<Rightarrow> (Inl e, s1)
      | (Inr has, s1) \<Rightarrow>
          if has
          then (case Object_Get s1 k of
                  (Inl e, s2) \<Rightarrow> (Inl e, s2)
                | (Inr v, s2) \<Rightarrow> (Inr (Object_Set obj k v), s2))
          else (Inr obj, s1))"
  by (simp add: copy_property_def call_bind_def call_return_def split: prod.splits sum.splits)

lemma copy_absent:
  "Object_Has s k = (Inr False, s1) \<Longrightarrow> copy_property k obj s = (Inr obj, s1)"
  by (simp add: copy_property_eq)

lemma copy_present:
  "Object_Has s k = (Inr True, s1) \<Longrightarrow> Object_Get s1 k = (Inr v, s2) \<Longrightarrow>
     copy_property k obj s = (Inr (Object_Set obj k v), s2)"
  by (simp add: copy_property_eq)

lemma copy_fields:
  assumes "copy_property k obj s = (Inr obj', s')" and "map_of obj' k' \<noteq> None"
  shows "k' = k \<or> map_of obj k' \<noteq> None"
  using assms
  by (auto simp: copy_property_eq map_of_Set split: prod.splits sum.splits if_splits)

lemma copy_returns:
  assumes "I s"
    and "\<forall>s. I s \<longrightarrow>
           (\<exists>has s1. Object_Has s k = (Inr has, s1) \<and> I s1 \<and>
              (has \<longrightarrow> (\<exists>v s2. Object_Get s1 k = (Inr v, s2) \<and> I s2)))"
  shows "\<exists>obj' s'. copy_property k obj s = (Inr obj', s') \<and> I s'"
proof -
  from assms obtain has s1 where h: "Object_Has s k = (Inr has, s1)" "I s1"
    "has \<longrightarrow> (\<exists>v s2. Object_Get s1 k = (Inr v, s2) \<and> I s2)"
    by blast
  show ?thesis
  proof (cases has)
    case True
    with h obtain v s2 where "Object_Get s1 k = (Inr v, s2)" "I s2" by blast
    with h True show ?thesis by (simp add: copy_property_eq)
  next
    case False
    with h show ?thesis by (simp add: copy_property_eq)
  qed
qed

lemma copy_related:
  assumes "Rel s t"
    and "\<forall>s t. Rel s t \<longrightarrow>
           fst (Object_Has s k) = fst (Object_Has t k) \<and>
           Rel (snd (Object_Has s k)) (snd (Object_Has t k)) \<and>
           fst (Object_Get s k) = fst (Object_Get t k) \<and>
           Rel (snd (Object_Get s k)) (snd (Object_Get t k))"
  shows "fst (copy_property k obj s) = fst (copy_property k obj t) \<and>
         Rel (snd (copy_property k obj s)) (snd (copy_property k obj t))"
proof -
  obtain r s1 where hs: "Object_Has s k = (r, s1)" by (cases "Object_Has s k")
  obtain r' t1 where ht: "Object_Has t k = (r', t1)" by (cases "Object_Has t k")
  from assms hs ht have r: "r' = r" and rel1: "Rel s1 t1"
    by (metis fst_conv, metis snd_conv)
  obtain g s2 where gs: "Object_Get s1 k = (g, s2)" by (cases "Object_Get s1 k")
  obtain g' t2 where gt: "Object_Get t1 k = (g', t2)" by (cases "Object_Get t1 k")
  from assms(2) rel1 gs gt have g: "g' = g" and rel2: "Rel s2 t2"
    by (metis fst_conv, metis snd_conv)
  show ?thesis
    using hs ht r rel1 gs gt g rel2
    by (auto simp: copy_property_eq split: sum.splits)
qed

section \<open>The factories as sequences of statements\<close>

lemma sd_not_object:
  "\<not> (Length info > 0 \<and> Value_IsObject (arg info 0)) \<Longrightarrow>
     CreateRTCSessionDescription info = Inr []"
  by (auto simp: CreateRTCSessionDescription_def Object_New_def Let_def)

lemma ice_not_object:
  "\<not> (Length info > 0 \<and> Value_IsObject (arg info 0)) \<Longrightarrow>
     CreateRTCIceCandidate info = Inr []"
  by (auto simp: CreateRTCIceCandidate_def Object_New_def Let_def)

lemma sd_steps:
  assumes "Length info > 0" and "Value_IsObject (arg info 0)"
  shows "CreateRTCSessionDescription info =
           fst (call_bind (copy_property ''type'' []) (\<lambda>obj.
                call_bind (copy_property ''sdp'' obj) call_return)
                  (Value_As_Object (arg info 0)))"
  using assms
  by (simp add: CreateRTCSessionDescription_def copy_property_def Object_New_def Let_def
        call_return_def)

lemma ice_steps:
  assumes "Length info > 0" and "Value_IsObject (arg info 0)"
  shows "CreateRTCIceCandidate info =
           fst (call_bind (copy_property ''candidate'' []) (\<lambda>obj.
                call_bind (copy_property ''sdpMLineIndex'' obj) (\<lambda>obj.
                call_bind (copy_property ''sdpMid'' obj) call_return))
                  (Value_As_Object (arg info 0)))"
  using assms
  by (simp add: CreateRTCIceCandidate_def copy_property_def Object_New_def Let_def
        call_return_def)

lemma call_bind_cases:
  "call_bind m f s = (Inr y, s'') \<longleftrightarrow> (\<exists>x s'. m s = (Inr x, s') \<and> f x s' = (Inr y, s''))"
  by (auto simp: call_bind_def split: prod.splits sum.splits)

lemma call_bind_returns:
  assumes "I s"
    and "\<forall>s. I s \<longrightarrow> (\<exists>x s'. m s = (Inr x, s') \<and> I s')"
    and "\<forall>x s. I s \<longrightarrow> (\<exists>y s'. f x s = (Inr y, s') \<and> I s')"
  shows "\<exists>y s'. call_bind m f s = (Inr y, s') \<and> I s'"
proof -
  from assms(1,2) obtain x s1 where "m s = (Inr x, s1)" "I s1" by blast
  with assms(3) show ?thesis by (simp add: call_bind_def)
qed

lemma call_bind_related:
  assumes "Rel s t"
    and "\<forall>s t. Rel s t \<longrightarrow> fst (m s) = fst (m t) \<and> Rel (snd (m s)) (snd (m t))"
    and "\<forall>x s t. Rel s t \<longrightarrow> fst (f x s) = fst (f x t) \<and> Rel (snd (f x s)) (snd (f x t))"
  shows "fst (call_bind m f s) = fst (call_bind m f t) \<and>
         Rel (snd (call_bind m f s)) (snd (call_bind m f t))"
proof -
  obtain r s1 where ms: "m s = (r, s1)" by (cases "m s")
  obtain r' t1 where mt: "m t = (r', t1)" by (cases "m t")
  from assms(1,2) ms mt have r: "r' = r" and rel: "Rel s1 t1"
    by (metis fst_conv, metis snd_conv)
  show ?thesis
  proof (cases r)
    case (Inl e)
    with ms mt r rel show ?thesis by (simp add: call_bind_def)
  next
    case (Inr x)
    with ms mt r rel assms(3) show ?thesis by (simp add: call_bind_def)
  qed
qed

lemma sd_fields:
  assumes "CreateRTCSessionDescription info = Inr obj" and "map_of obj k \<noteq> None"
  shows "k \<in> {''type'', ''sdp''}"
proof (cases "Length info > 0 \<and> Value_IsObject (arg info 0)")
  case False
  with assms show ?thesis by (simp add: sd_not_object)
next
  case True
  obtain r s' where run: "call_bind (copy_property ''type'' []) (\<lambda>obj.
                call_bind (copy_property ''sdp'' obj) call_return)
                  (Value_As_Object (arg info 0)) = (r, s')"
    by (cases "call_bind (copy_property ''type'' []) (\<lambda>obj.
                call_bind (copy_property ''sdp'' obj) call_return)
                  (Value_As_Object (arg info 0))")
  with True assms(1) have "r = Inr obj" by (simp add: sd_steps)
  with run obtain o1 s1 o2 s2
    where c1: "copy_property ''type'' [] (Value_As_Object (arg info 0)) = (Inr o1, s1)"
      and c2: "copy_property ''sdp'' o1 s1 = (Inr o2, s2)"
      and "call_return o2 s2 = (Inr obj, s')"
    by (auto simp: call_bind_cases)
  then have "o2 = obj" by (simp add: call_return_def)
  with c2 assms(2) have "k = ''sdp'' \<or> map_of o1 k \<noteq> None"
    using copy_fields by blast
  moreover have "map_of o1 k \<noteq> None \<Longrightarrow> k = ''type''"
    using copy_fields [OF c1] by fastforce
  ultimately show ?thesis by blast
qed

lemma ice_fields:
  assumes "CreateRTCIceCandidate info = Inr obj" and "map_of obj k \<noteq> None"
  shows "k \<in> {''candidate'', ''sdpMLineIndex'', ''sdpMid''}"
proof (cases "Length info > 0 \<and> Value_IsObject (arg info 0)")
  case False
  with assms show ?thesis by (simp add: ice_not_object)
next
  case True
  obtain r s' where run: "call_bind (copy_property ''candidate'' []) (\<lambda>obj.
                call_bind (copy_property ''sdpMLineIndex'' obj) (\<lambda>obj.
                call_bind (copy_property ''sdpMid'' obj) call_return))
                  (Value_As_Object (arg info 0)) = (r, s')"
    by (cases "call_bind (copy_property ''candidate'' []) (\<lambda>obj.
                call_bind (copy_property ''sdpMLineIndex'' obj) (\<lambda>obj.
                call_bind (copy_property ''sdpMid'' obj) call_return))
                  (Value_As_Object (arg info 0))")
  with True assms(1) have "r = Inr obj" by (simp add: ice_steps)
  with run obtain o1 s1 o2 s2 o3 s3
    where c1: "copy_property ''candidate'' [] (Value_As_Object (arg info 0)) = (Inr o1, s1)"
      and c2: "copy_property ''sdpMLineIndex'' o1 s1 = (Inr o2, s2)"
      and c3: "copy_property ''sdpMid'' o2 s2 = (Inr o3, s3)"
      and "call_return o3 s3 = (Inr obj, s')"
    by (auto simp: call_bind_cases)
  then have "o3 = obj" by (simp add: call_return_def)
  with c3 assms(2) have "k = ''sdpMid'' \<or> map_of o2 k \<noteq> None"
    using copy_fields by blast
  moreover have "map_of o2 k \<noteq> None \<Longrightarrow> k = ''sdpMLineIndex'' \<or> map_of o1 k \<noteq> None"
    using copy_fields [OF c2] by blast
  moreover have "map_of o1 k \<noteq> None \<Longrightarrow> k = ''candidate''"
    using copy_fields [OF c1] by fastforce
  ultimately show ?thesis by blast
qed

lemma sd_returns:
  assumes "I (Value_As_Object (arg info 0))"
    and "\<forall>s k. I s \<longrightarrow> k \<in> {''type'', ''sdp''} \<longrightarrow>
           (\<exists>has s1. Object_Has s k = (Inr has, s1) \<and> I s1 \<and>
              (has \<longrightarrow> (\<exists>v s2. Object_Get s1 k = (Inr v, s2) \<and> I s2)))"
  shows "\<exists>obj. CreateRTCSessionDescription info = Inr obj"
proof (cases "Length info > 0 \<and> Value_IsObject (arg info 0)")
  case False
  then show ?thesis by (simp add: sd_not_object)
next
  case True
  have step: "\<exists>obj' s'. copy_property k obj s = (Inr obj', s') \<and> I s'"
    if "I s" "k \<in> {''type'', ''sdp''}" for k obj s
    using that assms(2) by (intro copy_returns) blast+
  have ret: "\<exists>y s'. call_return x s = (Inr y, s') \<and> I s'" if "I s" for x :: props and s
    using that by (simp add: call_return_def)
  have "\<exists>y s'. call_bind (copy_property ''type'' []) (\<lambda>obj.
                call_bind (copy_property ''sdp'' obj) call_return)
                  (Value_As_Object (arg info 0)) = (Inr y, s') \<and> I s'"
    by (intro call_bind_returns allI impI assms(1) step ret) simp_all
  with True show ?thesis by (auto simp: sd_steps)
qed

lemma ice_returns:
  assumes "I (Value_As_Object (arg info 0))"
    and "\<forall>s k. I s \<longrightarrow> k \<in> {''candidate'', ''sdpMLineIndex'', ''sdpMid''} \<longrightarrow>
           (\<exists>has s1. Object_Has s k = (Inr has, s1) \<and> I s1 \<and>
              (has \<longrightarrow> (\<exists>v s2. Object_Get s1 k = (Inr v, s2) \<and> I s2)))"
  shows "\<exists>obj. CreateRTCIceCandidate info = Inr obj"
proof (cases "Length info > 0 \<and> Value_IsObject (arg info 0)")
  case False
  then show ?thesis by (simp add: ice_not_object)
next
  case True
  have step: "\<exists>obj' s'. copy_property k obj s = (Inr obj', s') \<and> I s'"
    if "I s" "k \<in> {''candidate'', ''sdpMLineIndex'', ''sdpMid''}" for k obj s
    using that assms(2) by (intro copy_returns) blast+
  have ret: "\<exists>y s'. call_return x s = (Inr y, s') \<and> I s'" if "I s" for x :: props and s
    using that by (simp add: call_return_def)
  have "\<exists>y s'. call_bind (copy_property ''candidate'' []) (\<lambda>obj.
                call_bind (copy_property ''sdpMLineIndex'' obj) (\<lambda>obj.
                call_bind (copy_property ''sdpMid'' obj) call_return))
                  (Value_As_Object (arg info 0)) = (Inr y, s') \<and> I s'"
    by (intro call_bind_returns allI impI assms(1) step ret) simp_all
  with True show ?thesis by (auto simp: ice_steps)
qed

lemma sd_related:
  assumes "Length i1 > 0 \<and> Value_IsObject (arg i1 0)"
    and "Length i2 > 0 \<and> Value_IsObject (arg i2 0)"
    and "Rel (Value_As_Object (arg i1 0)) (Value_As_Object (arg i2 0))"
    and "\<forall>s t k. Rel s t \<longrightarrow> k \<in> {''type'', ''sdp''} \<longrightarrow>
           fst (Object_Has s k) = fst (Object_Has t k) \<and>
           Rel (snd (Object_Has s k)) (snd (Object_Has t k)) \<and>
           fst (Object_Get s k) = fst (Object_Get t k) \<and>
           Rel (snd (Object_Get s k)) (snd (Object_Get t k))"
  shows "CreateRTCSessionDescription i1 = CreateRTCSessionDescription i2"
proof -
  have step: "fst (copy_property k obj s) = fst (copy_property k obj t) \<and>
              Rel (snd (copy_property k obj s)) (snd (copy_property k obj t))"
    if "Rel s t" "k \<in> {''type'', ''sdp''}" for k obj s t
    using that assms(4) by (intro copy_related) blast+
  have ret: "fst (call_return x s) = fst (call_return x t) \<and>
             Rel (snd (call_return x s)) (snd (call_return x t))"
    if "Rel s t" for x :: props and s t
    using that by (simp add: call_return_def)
  have inner: "fst (call_bind (copy_property ''sdp'' x) call_return s) =
               fst (call_bind (copy_property ''sdp'' x) call_return t) \<and>
               Rel (snd (call_bind (copy_property ''sdp'' x) call_return s))
                   (snd (call_bind (copy_property ''sdp'' x) call_return t))"
    if "Rel s t" for x s t
    by (rule call_bind_related [where Rel = Rel, OF that]) (intro allI impI step ret; simp)+
  have "fst (call_bind (copy_property ''type'' []) (\<lambda>obj.
                call_bind (copy_property ''sdp'' obj) call_return)
                  (Value_As_Object (arg i1 0))) =
        fst (call_bind (copy_property ''type'' []) (\<lambda>obj.
                call_bind (copy_property ''sdp'' obj) call_return)
                  (Value_As_Object (arg i2 0)))"
    by (rule call_bind_related [where Rel = Rel, OF assms(3), THEN conjunct1])
       (intro allI impI step inner; simp)+
  with assms(1,2) show ?thesis by (simp add: sd_steps)
qed

lemma ice_related:
  assumes "Length i1 > 0 \<and> Value_IsObject (arg i1 0)"
    and "Length i2 > 0 \<and> Value_IsObject (arg i2 0)"
    and "Rel (Value_As_Object (arg i1 0)) (Value_As_Object (arg i2 0))"
    and "\<forall>s t k. Rel s t \<longrightarrow> k \<in> {''candidate'', ''sdpMLineIndex'', ''sdpMid''} \<longrightarrow>
           fst (Object_Has s k) = fst (Object_Has t k) \<and>
           Rel (snd (Object_Has s k)) (snd (Object_Has t k)) \<and>
           fst (Object_Get s k) = fst (Object_Get t k) \<and>
           Rel (snd (Object_Get s k)) (snd (Object_Get t k))"
  shows "CreateRTCIceCandidate i1 = CreateRTCIceCandidate i2"
proof -
  have step: "fst (copy_property k obj s) = fst (copy_property k obj t) \<and>
              Rel (snd (copy_property k obj s)) (snd (copy_property k obj t))"
    if "Rel s t" "k \<in> {''candidate'', ''sdpMLineIndex'', ''sdpMid''}" for k obj s t
    using that assms(4) by (intro copy_related) blast+
  have ret: "fst (call_return x s) = fst (call_return x t) \<and>
             Rel (snd (call_return x s)) (snd (call_return x t))"
    if "Rel s t" for x :: props and s t
    using that by (simp add: call_return_def)
  have inner: "fst (call_bind (copy_property ''sdpMid'' x) call_return s) =
               fst (call_bind (copy_property ''sdpMid'' x) call_return t) \<and>
               Rel (snd (call_bind (copy_property ''sdpMid'' x) call_return s))
                   (snd (call_bind (copy_property ''sdpMid'' x) call_return t))"
    if "Rel s t" for x s t
    by (rule call_bind_related [where Rel = Rel, OF that]) (intro allI impI step ret; simp)+
  have middle: "fst (call_bind (copy_property ''sdpMLineIndex'' x) (\<lambda>obj.
                       call_bind (copy_property ''sdpMid'' obj) call_return) s) =
                fst (call_bind (copy_property ''sdpMLineIndex'' x) (\<lambda>obj.
                       call_bind (copy_property ''sdpMid'' obj) call_return) t) \<and>
                Rel (snd (call_bind (copy_property ''sdpMLineIndex'' x) (\<lambda>obj.
                       call_bind (copy_property ''sdpMid'' obj) call_return) s))
                    (snd (call_bind (copy_property ''sdpMLineIndex'' x) (\<lambda>obj.
                       call_bind (copy_property ''sdpMid'' obj) call_return) t))"
    if "Rel s t" for x s t
    by (rule call_bind_related [where Rel = Rel, OF that]) (intro allI impI step inner; simp)+
  have "fst (call_bind (copy_property ''candidate'' []) (\<lambda>obj.
                call_bind (copy_property ''sdpMLineIndex'' obj) (\<lambda>obj.
                call_bind (copy_property ''sdpMid'' obj) call_return))
                  (Value_As_Object (arg i1 0))) =
        fst (call_bind (copy_property ''candidate'' []) (\<lambda>obj.
                call_bind (copy_property ''sdpMLineIndex'' obj) (\<lambda>obj.
                call_bind (copy_property ''sdpMid'' obj) call_return))
                  (Value_As_Object (arg i2 0)))"
    by (rule call_bind_related [where Rel = Rel, OF assms(3), THEN conjunct1])
       (intro allI impI step middle; simp)+
  with assms(1,2) show ?thesis by (simp add: ice_steps)
qed

lemma copy_quiet:
  assumes "Object_Has s k = (Inr has, s)" and "has \<longrightarrow> Object_Get s k = (Inr v, s)"
  shows "copy_property k obj s = (Inr (if has then Object_Set obj k v else obj), s)"
  using assms by (simp add: copy_property_eq)

section \<open>The claims\<close>

text \<open>
  Claim C1, as stated. It says that on every object with a \<^verbatim>\<open>type\<close> field and no \<^verbatim>\<open>sdp\<close> field
  \<^verbatim>\<open>RTCSessionDescription\<close> returns the record of the \<^verbatim>\<open>type\<close> value alone. It fails on an
  object whose \<^verbatim>\<open>type\<close> getter throws, where the factory raises, and on an object whose
  \<^verbatim>\<open>type\<close> getter adds an \<^verbatim>\<open>sdp\<close> property, where the record has both fields.
\<close>

theorem session_description_type_only_counterexample:
  "fst (Object_Has (Ordinary [(''type'', AccessorProp (Inl (JSString ''boom'')) None)]) ''type'')
     = Inr True \<and>
   fst (Object_Has (Ordinary [(''type'', AccessorProp (Inl (JSString ''boom'')) None)]) ''sdp'')
     = Inr False \<and>
   CreateRTCSessionDescription
     \<lparr>Env = (),
      argv = [JSObject (Ordinary [(''type'', AccessorProp (Inl (JSString ''boom'')) None)])]\<rparr>
     = Inl (JSString ''boom'') \<and>
   fst (Object_Has
         (Ordinary [(''type'', AccessorProp (Inr (JSString ''offer''))
            (Some (Ordinary [(''type'', AccessorProp (Inr (JSString ''offer'')) None),
                             (''sdp'', DataProp (JSString ''injected''))])))]) ''type'')
     = Inr True \<and>
   fst (Object_Has
         (Ordinary [(''type'', AccessorProp (Inr (JSString ''offer''))
            (Some (Ordinary [(''type'', AccessorProp (Inr (JSString ''offer'')) None),
                             (''sdp'', DataProp (JSString ''injected''))])))]) ''sdp'')
     = Inr False \<and>
   CreateRTCSessionDescription
     \<lparr>Env = (),
      argv = [JSObject
        (Ordinary [(''type'', AccessorProp (Inr (JSString ''offer''))
           (Some (Ordinary [(''type'', AccessorProp (Inr (JSString ''offer'')) None),
                            (''sdp'', DataProp (JSString ''injected''))])))])]\<rparr>
     = Inr [(''type'', DataProp (JSString ''offer'')),
            (''sdp'', DataProp (JSString ''injected''))]"
  by (simp add: CreateRTCSessionDescription_def Length_def arg_def Value_IsObject_def
        Object_Set_def Object_New_def call_bind_def call_return_def)

text \<open>
  Claim C1, amended. Let the first argument of \<^verbatim>\<open>RTCSessionDescription\<close> be an object on which the
  check for \<^verbatim>\<open>type\<close> answers true, the read of \<^verbatim>\<open>type\<close> that follows returns \<open>v\<close>, and
  the check for \<^verbatim>\<open>sdp\<close> after it answers false. Then the factory returns the record
  whose only field is \<^verbatim>\<open>type\<close>, holding \<open>v\<close>; the record has no \<^verbatim>\<open>sdp\<close> field.
  Every ordinary object with a data property \<^verbatim>\<open>type\<close> and no \<^verbatim>\<open>sdp\<close> is such an
  object.
\<close>

theorem session_description_type_only:
  assumes "Length info > 0" and "Value_IsObject (arg info 0)"
    and "Object_Has (Value_As_Object (arg info 0)) ''type'' = (Inr True, s1)"
    and "Object_Get s1 ''type'' = (Inr v, s2)"
    and "Object_Has s2 ''sdp'' = (Inr False, s3)"
  shows "CreateRTCSessionDescription info = Inr [(''type'', DataProp v)]"
  using assms
  by (simp add: sd_steps call_bind_def call_return_def copy_absent copy_present Object_Set_def)

theorem session_description_type_only_witness:
  "CreateRTCSessionDescription
     \<lparr>Env = (), argv = [JSObject (Ordinary [(''type'', DataProp (JSString ''offer'')),
                                            (''label'', DataProp (JSNumber 7))])]\<rparr>
   = Inr [(''type'', DataProp (JSString ''offer''))]"
  using session_description_type_only
          [of "\<lparr>Env = (), argv = [JSObject (Ordinary [(''type'', DataProp (JSString ''offer'')),
                                            (''label'', DataProp (JSNumber 7))])]\<rparr>"
              "Ordinary [(''type'', DataProp (JSString ''offer'')),
                         (''label'', DataProp (JSNumber 7))]"
              "JSString ''offer''"
              "Ordinary [(''type'', DataProp (JSString ''offer'')),
                         (''label'', DataProp (JSNumber 7))]"
              "Ordinary [(''type'', DataProp (JSString ''offer'')),
                         (''label'', DataProp (JSNumber 7))]"]
  by (simp add: Length_def arg_def Value_IsObject_def)



text \<open>
  Claim C3, as stated. It says that on every object with \<^verbatim>\<open>candidate\<close>, \<^verbatim>\<open>sdpMLineIndex\<close> and
  \<^verbatim>\<open>sdpMid\<close> present \<^verbatim>\<open>RTCIceCandidate\<close> returns the record of the three values. It
  fails on an object whose \<^verbatim>\<open>sdpMid\<close> getter throws, where the factory raises, and on an
  object whose \<^verbatim>\<open>candidate\<close> getter deletes \<^verbatim>\<open>sdpMid\<close>, where the record has two
  fields.
\<close>

theorem ice_candidate_all_three_counterexample:
  "fst (Object_Has
         (Ordinary [(''candidate'', DataProp (JSString ''candidate:1'')),
                    (''sdpMLineIndex'', DataProp (JSNumber 0)),
                    (''sdpMid'', AccessorProp (Inl (JSString ''boom'')) None)]) ''candidate'')
     = Inr True \<and>
   fst (Object_Has
         (Ordinary [(''candidate'', DataProp (JSString ''candidate:1'')),
                    (''sdpMLineIndex'', DataProp (JSNumber 0)),
                    (''sdpMid'', AccessorProp (Inl (JSString ''boom'')) None)]) ''sdpMLineIndex'')
     = Inr True \<and>
   fst (Object_Has
         (Ordinary [(''candidate'', DataProp (JSString ''candidate:1'')),
                    (''sdpMLineIndex'', DataProp (JSNumber 0)),
                    (''sdpMid'', AccessorProp (Inl (JSString ''boom'')) None)]) ''sdpMid'')
     = Inr True \<and>
   CreateRTCIceCandidate
     \<lparr>Env = (),
      argv = [JSObject
        (Ordinary [(''candidate'', DataProp (JSString ''candidate:1'')),
                   (''sdpMLineIndex'', DataProp (JSNumber 0)),
                   (''sdpMid'', AccessorProp (Inl (JSString ''boom'')) None)])]\<rparr>
     = Inl (JSString ''boom'') \<and>
   fst (Object_Has
         (Ordinary [(''candidate'', AccessorProp (Inr (JSString ''candidate:1''))
                      (Some (Ordinary [(''candidate'',
                                        AccessorProp (Inr (JSString ''candidate:1'')) None),
                                       (''sdpMLineIndex'', DataProp (JSNumber 0))]))),
                    (''sdpMLineIndex'', DataProp (JSNumber 0)),
                    (''sdpMid'', DataProp (JSString ''0''))]) ''sdpMid'')
     = Inr True \<and>
   CreateRTCIceCandidate
     \<lparr>Env = (),
      argv = [JSObject
        (Ordinary [(''candidate'', AccessorProp (Inr (JSString ''candidate:1''))
                     (Some (Ordinary [(''candidate'',
                                       AccessorProp (Inr (JSString ''candidate:1'')) None),
                                      (''sdpMLineIndex'', DataProp (JSNumber 0))]))),
                   (''sdpMLineIndex'', DataProp (JSNumber 0)),
                   (''sdpMid'', DataProp (JSString ''0''))])]\<rparr>
     = Inr [(''candidate'', DataProp (JSString ''candidate:1'')),
            (''sdpMLineIndex'', DataProp (JSNumber 0))]"
  by (simp add: CreateRTCIceCandidate_def Length_def arg_def Value_IsObject_def
        Object_Set_def Object_New_def call_bind_def call_return_def)

text \<open>
  Claim C3, amended. Let the first argument of \<^verbatim>\<open>RTCIceCandidate\<close> be an object on which, in the
  order of the factory's statements, the check for \<^verbatim>\<open>candidate\<close> answers true and its
  read returns \<open>c\<close>, then the check for \<^verbatim>\<open>sdpMLineIndex\<close> answers true and its read
  returns \<open>i\<close>, then the check for \<^verbatim>\<open>sdpMid\<close> answers true and its read returns
  \<open>m\<close>. Then the factory returns the record of exactly these three fields, each
  holding the very value that was read. The values are not converted, so each keeps its
  dynamic type (\<open>Value_Type\<close>): a number stays a number, a string a string. Every
  ordinary object with the three names as data properties is such an object.
\<close>

theorem ice_candidate_all_three:
  assumes "Length info > 0" and "Value_IsObject (arg info 0)"
    and "Object_Has (Value_As_Object (arg info 0)) ''candidate'' = (Inr True, s1)"
    and "Object_Get s1 ''candidate'' = (Inr c, s2)"
    and "Object_Has s2 ''sdpMLineIndex'' = (Inr True, s3)"
    and "Object_Get s3 ''sdpMLineIndex'' = (Inr i, s4)"
    and "Object_Has s4 ''sdpMid'' = (Inr True, s5)"
    and "Object_Get s5 ''sdpMid'' = (Inr m, s6)"
  shows "CreateRTCIceCandidate info =
           Inr [(''candidate'', DataProp c), (''sdpMLineIndex'', DataProp i),
                (''sdpMid'', DataProp m)]"
  using assms
  by (simp add: ice_steps call_bind_def call_return_def copy_present Object_Set_def)

theorem ice_candidate_all_three_witness:
  "CreateRTCIceCandidate
     \<lparr>Env = (),
      argv = [JSObject (Ordinary [(''sdpMid'', DataProp (JSString ''audio'')),
                                  (''candidate'', DataProp (JSString ''candidate:1'')),
                                  (''sdpMLineIndex'', DataProp (JSNumber 0))])]\<rparr>
   = Inr [(''candidate'', DataProp (JSString ''candidate:1'')),
          (''sdpMLineIndex'', DataProp (JSNumber 0)),
          (''sdpMid'', DataProp (JSString ''audio''))] \<and>
   Value_Type (JSNumber 0) = napi_number \<and> Value_Type (JSString ''audio'') = napi_string"
  using ice_candidate_all_three
          [of "\<lparr>Env = (),
                argv = [JSObject (Ordinary [(''sdpMid'', DataProp (JSString ''audio'')),
                                  (''candidate'', DataProp (JSString ''candidate:1'')),
                                  (''sdpMLineIndex'', DataProp (JSNumber 0))])]\<rparr>"
              "Ordinary [(''sdpMid'', DataProp (JSString ''audio'')),
                         (''candidate'', DataProp (JSString ''candidate:1'')),
                         (''sdpMLineIndex'', DataProp (JSNumber 0))]"
              "JSString ''candidate:1''"
              "Ordinary [(''sdpMid'', DataProp (JSString ''audio'')),
                         (''candidate'', DataProp (JSString ''candidate:1'')),
                         (''sdpMLineIndex'', DataProp (JSNumber 0))]"
              "Ordinary [(''sdpMid'', DataProp (JSString ''audio'')),
                         (''candidate'', DataProp (JSString ''candidate:1'')),
                         (''sdpMLineIndex'', DataProp (JSNumber 0))]"
              "JSNumber 0"
              "Ordinary [(''sdpMid'', DataProp (JSString ''audio'')),
                         (''candidate'', DataProp (JSString ''candidate:1'')),
                         (''sdpMLineIndex'', DataProp (JSNumber 0))]"
              "Ordinary [(''sdpMid'', DataProp (JSString ''audio'')),
                         (''candidate'', DataProp (JSString ''candidate:1'')),
                         (''sdpMLineIndex'', DataProp (JSNumber 0))]"
              "JSString ''audio''"
              "Ordinary [(''sdpMid'', DataProp (JSString ''audio'')),
                         (''candidate'', DataProp (JSString ''candidate:1'')),
                         (''sdpMLineIndex'', DataProp (JSNumber 0))]"]
  by (simp add: Length_def arg_def Value_IsObject_def)

text \<open>
  Claim C4. Whatever the input, a record returned by \<^verbatim>\<open>RTCSessionDescription\<close> has no
  field other than \<^verbatim>\<open>type\<close> and \<^verbatim>\<open>sdp\<close>, and a record returned by
  \<^verbatim>\<open>RTCIceCandidate\<close> has no field other than \<^verbatim>\<open>candidate\<close>,
  \<^verbatim>\<open>sdpMLineIndex\<close> and \<^verbatim>\<open>sdpMid\<close>. The other properties of the input are
  dropped without an error: removing them from the input object changes nothing in what
  either factory does.
\<close>

theorem unrecognized_fields_dropped:
  "(CreateRTCSessionDescription info = Inr obj \<longrightarrow> map_of obj k \<noteq> None \<longrightarrow>
      k \<in> {''type'', ''sdp''}) \<and>
   (CreateRTCIceCandidate info = Inr obj' \<longrightarrow> map_of obj' k \<noteq> None \<longrightarrow>
      k \<in> {''candidate'', ''sdpMLineIndex'', ''sdpMid''}) \<and>
   CreateRTCSessionDescription \<lparr>Env = env, argv = JSObject (Ordinary ps) # rest\<rparr> =
     CreateRTCSessionDescription
       \<lparr>Env = env,
        argv = JSObject (Ordinary (AList.restrict {''type'', ''sdp''} ps)) # rest\<rparr> \<and>
   CreateRTCIceCandidate \<lparr>Env = env, argv = JSObject (Ordinary ps) # rest\<rparr> =
     CreateRTCIceCandidate
       \<lparr>Env = env,
        argv = JSObject (Ordinary
          (AList.restrict {''candidate'', ''sdpMLineIndex'', ''sdpMid''} ps)) # rest\<rparr>"
proof (intro conjI impI)
  assume "CreateRTCSessionDescription info = Inr obj" and "map_of obj k \<noteq> None"
  then show "k \<in> {''type'', ''sdp''}"
    by (rule sd_fields)
next
  assume "CreateRTCIceCandidate info = Inr obj'" and "map_of obj' k \<noteq> None"
  then show "k \<in> {''candidate'', ''sdpMLineIndex'', ''sdpMid''}"
    by (rule ice_fields)
next
  show "CreateRTCSessionDescription \<lparr>Env = env, argv = JSObject (Ordinary ps) # rest\<rparr> =
     CreateRTCSessionDescription
       \<lparr>Env = env,
        argv = JSObject (Ordinary (AList.restrict {''type'', ''sdp''} ps)) # rest\<rparr>"
    by (rule sd_related
          [where Rel = "\<lambda>s t. s = t \<or>
             (s = Ordinary ps \<and> t = Ordinary (AList.restrict {''type'', ''sdp''} ps))"])
       (auto simp: info_simps Value_IsObject_def restr_conv'
             split: option.splits jsprop.splits)
next
  show "CreateRTCIceCandidate \<lparr>Env = env, argv = JSObject (Ordinary ps) # rest\<rparr> =
     CreateRTCIceCandidate
       \<lparr>Env = env,
        argv = JSObject (Ordinary
          (AList.restrict {''candidate'', ''sdpMLineIndex'', ''sdpMid''} ps)) # rest\<rparr>"
    by (rule ice_related
          [where Rel = "\<lambda>s t. s = t \<or>
             (s = Ordinary ps \<and>
              t = Ordinary (AList.restrict {''candidate'', ''sdpMLineIndex'', ''sdpMid''} ps))"])
       (auto simp: info_simps Value_IsObject_def restr_conv'
             split: option.splits jsprop.splits)
qed

theorem unrecognized_fields_dropped_witness:
  "CreateRTCSessionDescription
     \<lparr>Env = (), argv = [JSObject (Ordinary [(''type'', DataProp (JSString ''answer'')),
                                  (''usernameFragment'', DataProp (JSString ''abcd''))])]\<rparr>
     = Inr [(''type'', DataProp (JSString ''answer''))] \<and>
   map_of [(''type'', DataProp (JSString ''answer''))] ''type'' \<noteq> None \<and>
   map_of [(''type'', DataProp (JSString ''answer''))] ''usernameFragment'' = None \<and>
   CreateRTCIceCandidate
     \<lparr>Env = (), argv = [JSObject (Ordinary [(''usernameFragment'', DataProp (JSString ''abcd'')),
                                  (''sdpMid'', DataProp (JSString ''0''))])]\<rparr>
     = Inr [(''sdpMid'', DataProp (JSString ''0''))] \<and>
   map_of [(''sdpMid'', DataProp (JSString ''0''))] ''sdpMid'' \<noteq> None \<and>
   map_of [(''sdpMid'', DataProp (JSString ''0''))] ''usernameFragment'' = None"
  using unrecognized_fields_dropped
          [of "\<lparr>Env = (), argv = [JSObject (Ordinary [(''type'', DataProp (JSString ''answer'')),
                                  (''usernameFragment'', DataProp (JSString ''abcd''))])]\<rparr>"
              "[(''type'', DataProp (JSString ''answer''))]" "''type''"
              "[]" "()" "[]" "[]"]
        unrecognized_fields_dropped
          [of "\<lparr>Env = (), argv = [JSObject (Ordinary [(''usernameFragment'', DataProp (JSString ''abcd'')),
                                  (''sdpMid'', DataProp (JSString ''0''))])]\<rparr>"
              "[]" "''sdpMid''"
              "[(''sdpMid'', DataProp (JSString ''0''))]" "()" "[]" "[]"]
  by (simp add: CreateRTCSessionDescription_def CreateRTCIceCandidate_def Length_def arg_def
        Value_IsObject_def Object_Set_def Object_New_def call_bind_def call_return_def)

text \<open>
  Claim C5, as stated. It says that a recognised field that is absent on the input is absent on the
  returned record. It fails on an object that has no \<^verbatim>\<open>sdp\<close> when the factory is called
  and whose \<^verbatim>\<open>type\<close> getter adds one: the record has an \<^verbatim>\<open>sdp\<close> field.
\<close>

theorem field_presence_counterexample:
  "fst (Object_Has
         (Ordinary [(''type'', AccessorProp (Inr (JSString ''offer''))
            (Some (Ordinary [(''type'', AccessorProp (Inr (JSString ''offer'')) None),
                             (''sdp'', DataProp (JSString ''injected''))])))]) ''sdp'')
     = Inr False \<and>
   CreateRTCSessionDescription
     \<lparr>Env = (),
      argv = [JSObject
        (Ordinary [(''type'', AccessorProp (Inr (JSString ''offer''))
           (Some (Ordinary [(''type'', AccessorProp (Inr (JSString ''offer'')) None),
                            (''sdp'', DataProp (JSString ''injected''))])))])]\<rparr>
     = Inr [(''type'', DataProp (JSString ''offer'')),
            (''sdp'', DataProp (JSString ''injected''))] \<and>
   map_of [(''type'', DataProp (JSString ''offer'')),
           (''sdp'', DataProp (JSString ''injected''))] ''sdp''
     = Some (DataProp (JSString ''injected''))"
  by (simp add: CreateRTCSessionDescription_def Length_def arg_def Value_IsObject_def
        Object_Set_def Object_New_def call_bind_def call_return_def)

text \<open>
  Claim C5, amended. Let the first argument be an object on which the checks and the reads of
  the recognised names return and leave the object as it is; every ordinary object whose
  recognised properties are data properties is one. Then either factory returns a record
  on which field presence is preserved exactly: the record has a field if and only if the
  field is a recognised name that the input has, and the field holds the value that
  reading the input yields. In particular an ICE candidate built from a
  \<^verbatim>\<open>candidate\<close> string and the \<^verbatim>\<open>sdpMid\<close> \<^verbatim>\<open>"0"\<close> has these two fields and no
  \<^verbatim>\<open>sdpMLineIndex\<close>.
\<close>

theorem field_presence_preserved:
  "(Length info > 0 \<and> Value_IsObject (arg info 0) \<and> init = Value_As_Object (arg info 0) \<and>
    (\<forall>k \<in> {''type'', ''sdp''}.
       \<exists>has. Object_Has init k = (Inr has, init) \<and>
             (has \<longrightarrow> (\<exists>v. Object_Get init k = (Inr v, init))))
    \<longrightarrow> (\<exists>obj. CreateRTCSessionDescription info = Inr obj \<and>
           (\<forall>k. map_of obj k \<noteq> None \<longleftrightarrow>
                  k \<in> {''type'', ''sdp''} \<and> fst (Object_Has init k) = Inr True) \<and>
           (\<forall>k p. map_of obj k = Some p \<longrightarrow>
                  (\<exists>v. p = DataProp v \<and> fst (Object_Get init k) = Inr v)))) \<and>
   (Length info > 0 \<and> Value_IsObject (arg info 0) \<and> init = Value_As_Object (arg info 0) \<and>
    (\<forall>k \<in> {''candidate'', ''sdpMLineIndex'', ''sdpMid''}.
       \<exists>has. Object_Has init k = (Inr has, init) \<and>
             (has \<longrightarrow> (\<exists>v. Object_Get init k = (Inr v, init))))
    \<longrightarrow> (\<exists>obj. CreateRTCIceCandidate info = Inr obj \<and>
           (\<forall>k. map_of obj k \<noteq> None \<longleftrightarrow>
                  k \<in> {''candidate'', ''sdpMLineIndex'', ''sdpMid''} \<and>
                  fst (Object_Has init k) = Inr True) \<and>
           (\<forall>k p. map_of obj k = Some p \<longrightarrow>
                  (\<exists>v. p = DataProp v \<and> fst (Object_Get init k) = Inr v)))) \<and>
   CreateRTCIceCandidate
     \<lparr>Env = env,
      argv = [JSObject (Ordinary
        [(''candidate'',
          DataProp (JSString ''candidate:1 1 UDP 2122260223 10.0.0.1 54321 typ host'')),
         (''sdpMid'', DataProp (JSString ''0''))])]\<rparr>
     = Inr [(''candidate'',
             DataProp (JSString ''candidate:1 1 UDP 2122260223 10.0.0.1 54321 typ host'')),
            (''sdpMid'', DataProp (JSString ''0''))]"
proof (intro conjI impI)
  assume h: "Length info > 0 \<and> Value_IsObject (arg info 0) \<and>
    init = Value_As_Object (arg info 0) \<and>
    (\<forall>k \<in> {''type'', ''sdp''}.
       \<exists>has. Object_Has init k = (Inr has, init) \<and>
             (has \<longrightarrow> (\<exists>v. Object_Get init k = (Inr v, init))))"
  then obtain h1 v1 h2 v2
    where a: "Object_Has init ''type'' = (Inr h1, init)"
             "h1 \<longrightarrow> Object_Get init ''type'' = (Inr v1, init)"
      and b: "Object_Has init ''sdp'' = (Inr h2, init)"
             "h2 \<longrightarrow> Object_Get init ''sdp'' = (Inr v2, init)"
    by auto
  from h have e: "Value_As_Object (arg info 0) = init"
    and o: "Length info > 0" "Value_IsObject (arg info 0)"
    by simp_all
  have "CreateRTCSessionDescription info =
      Inr (if h2 then Object_Set (if h1 then Object_Set [] ''type'' v1 else []) ''sdp'' v2
           else (if h1 then Object_Set [] ''type'' v1 else []))"
    by (simp add: sd_steps [OF o] e call_bind_def call_return_def
          copy_quiet [OF a] copy_quiet [OF b])
  with a b show "\<exists>obj. CreateRTCSessionDescription info = Inr obj \<and>
           (\<forall>k. map_of obj k \<noteq> None \<longleftrightarrow>
                  k \<in> {''type'', ''sdp''} \<and> fst (Object_Has init k) = Inr True) \<and>
           (\<forall>k p. map_of obj k = Some p \<longrightarrow>
                  (\<exists>v. p = DataProp v \<and> fst (Object_Get init k) = Inr v))"
    by (auto simp: map_of_Set split: if_splits)
next
  assume h: "Length info > 0 \<and> Value_IsObject (arg info 0) \<and>
    init = Value_As_Object (arg info 0) \<and>
    (\<forall>k \<in> {''candidate'', ''sdpMLineIndex'', ''sdpMid''}.
       \<exists>has. Object_Has init k = (Inr has, init) \<and>
             (has \<longrightarrow> (\<exists>v. Object_Get init k = (Inr v, init))))"
  then have q: "\<exists>has. Object_Has init k = (Inr has, init) \<and>
                   (has \<longrightarrow> (\<exists>v. Object_Get init k = (Inr v, init)))"
    if "k \<in> {''candidate'', ''sdpMLineIndex'', ''sdpMid''}" for k
    using that by blast
  from q [of "''candidate''"] obtain h1 v1
    where a: "Object_Has init ''candidate'' = (Inr h1, init)"
             "h1 \<longrightarrow> Object_Get init ''candidate'' = (Inr v1, init)"
    by auto
  from q [of "''sdpMLineIndex''"] obtain h2 v2
    where b: "Object_Has init ''sdpMLineIndex'' = (Inr h2, init)"
             "h2 \<longrightarrow> Object_Get init ''sdpMLineIndex'' = (Inr v2, init)"
    by auto
  from q [of "''sdpMid''"] obtain h3 v3
    where c: "Object_Has init ''sdpMid'' = (Inr h3, init)"
             "h3 \<longrightarrow> Object_Get init ''sdpMid'' = (Inr v3, init)"
    by auto
  from h have e: "Value_As_Object (arg info 0) = init"
    and o: "Length info > 0" "Value_IsObject (arg info 0)"
    by simp_all
  have "CreateRTCIceCandidate info =
      Inr (if h3
           then Object_Set
                  (if h2 then Object_Set (if h1 then Object_Set [] ''candidate'' v1 else [])
                                ''sdpMLineIndex'' v2
                   else (if h1 then Object_Set [] ''candidate'' v1 else [])) ''sdpMid'' v3
           else (if h2 then Object_Set (if h1 then Object_Set [] ''candidate'' v1 else [])
                                ''sdpMLineIndex'' v2
                 else (if h1 then Object_Set [] ''candidate'' v1 else [])))"
    by (simp add: ice_steps [OF o] e call_bind_def call_return_def
          copy_quiet [OF a] copy_quiet [OF b] copy_quiet [OF c])
  with a b c show "\<exists>obj. CreateRTCIceCandidate info = Inr obj \<and>
           (\<forall>k. map_of obj k \<noteq> None \<longleftrightarrow>
                  k \<in> {''candidate'', ''sdpMLineIndex'', ''sdpMid''} \<and>
                  fst (Object_Has init k) = Inr True) \<and>
           (\<forall>k p. map_of obj k = Some p \<longrightarrow>
                  (\<exists>v. p = DataProp v \<and> fst (Object_Get init k) = Inr v))"
    by (auto simp: map_of_Set split: if_splits)
next
  show "CreateRTCIceCandidate
     \<lparr>Env = env,
      argv = [JSObject (Ordinary
        [(''candidate'',
          DataProp (JSString ''candidate:1 1 UDP 2122260223 10.0.0.1 54321 typ host'')),
         (''sdpMid'', DataProp (JSString ''0''))])]\<rparr>
     = Inr [(''candidate'',
             DataProp (JSString ''candidate:1 1 UDP 2122260223 10.0.0.1 54321 typ host'')),
            (''sdpMid'', DataProp (JSString ''0''))]"
    by (simp add: CreateRTCIceCandidate_def Length_def arg_def Value_IsObject_def
          Object_Set_def Object_New_def call_bind_def call_return_def)
qed

theorem field_presence_preserved_witness:
  "(\<exists>obj. CreateRTCSessionDescription
            \<lparr>Env = (), argv = [JSObject (Ordinary [(''sdp'', DataProp JSUndefined),
                                                   (''label'', DataProp JSNull)])]\<rparr> = Inr obj \<and>
          map_of obj ''sdp'' = Some (DataProp JSUndefined) \<and> map_of obj ''type'' = None) \<and>
   (\<exists>obj. CreateRTCIceCandidate
            \<lparr>Env = (), argv = [JSObject (Ordinary [(''sdp'', DataProp JSUndefined),
                                                   (''label'', DataProp JSNull)])]\<rparr> = Inr obj \<and>
          map_of obj ''candidate'' = None \<and> map_of obj ''sdpMLineIndex'' = None \<and>
          map_of obj ''sdpMid'' = None)"
  using field_presence_preserved
          [of "\<lparr>Env = (), argv = [JSObject (Ordinary [(''sdp'', DataProp JSUndefined),
                                                   (''label'', DataProp JSNull)])]\<rparr>"
              "Ordinary [(''sdp'', DataProp JSUndefined), (''label'', DataProp JSNull)]" "()"]
  by (simp add: CreateRTCSessionDescription_def CreateRTCIceCandidate_def Length_def arg_def
        Value_IsObject_def Object_Set_def Object_New_def call_bind_def call_return_def)

text \<open>
  Claim C6. Whenever module initialisation completes, that is, whenever
  \<^verbatim>\<open>PeerConnection::Init\<close> returns, the export object holds \<^verbatim>\<open>version\<close> with the
  string \<^verbatim>\<open>"1.0.0"\<close> and \<^verbatim>\<open>isNativeImplementation\<close> with the boolean
  \<^verbatim>\<open>true\<close>, whatever the environment, the export object passed in and the registration
  of the peer connection class did before.
\<close>

theorem module_constants:
  assumes "PeerConnection_Init env exports = Inr exports'"
  shows "\<exists>ex. Init PeerConnection_Init env exports = Inr ex \<and>
           map_of ex ''version'' = Some (DataProp (JSString ''1.0.0'')) \<and>
           map_of ex ''isNativeImplementation'' = Some (DataProp (JSBoolean True))"
  using assms
  by (simp add: Init_def Let_def String_New_def Boolean_New_def napi_bind_Inr map_of_Set)

theorem module_constants_witness:
  "\<exists>ex. Init (\<lambda>env exports. Inr (Object_Set exports ''PeerConnection''
                                   (Function_New env ''PeerConnection''))) () [] = Inr ex \<and>
         map_of ex ''version'' = Some (DataProp (JSString ''1.0.0'')) \<and>
         map_of ex ''isNativeImplementation'' = Some (DataProp (JSBoolean True))"
  using module_constants
          [of "\<lambda>env exports. Inr (Object_Set exports ''PeerConnection''
                                   (Function_New env ''PeerConnection''))" "()" "[]"
              "Object_Set [] ''PeerConnection'' (Function_New () ''PeerConnection'')"]
  by simp

text \<open>
  Claim C7, as stated. It says that the two descriptor factories return normally on every input.
  They do not: a check or a read of a recognised name is a call into the host, and when a
  getter or a proxy trap throws, the exception leaves the factory.
\<close>

theorem descriptor_factory_raises_counterexample:
  "CreateRTCSessionDescription
     \<lparr>Env = (),
      argv = [JSObject (Ordinary [(''type'', AccessorProp (Inl (JSString ''boom'')) None)])]\<rparr>
   = Inl (JSString ''boom'') \<and>
   CreateRTCIceCandidate
     \<lparr>Env = (),
      argv = [JSObject (Ordinary [(''candidate'', DataProp (JSString ''candidate:1'')),
                                  (''sdpMid'', AccessorProp (Inl (JSString ''boom'')) None)])]\<rparr>
   = Inl (JSString ''boom'') \<and>
   CreateRTCSessionDescription
     \<lparr>Env = (),
      argv = [JSObject (Exotic (\<lambda>k. (Inl (JSString ''boom''), None))
                               (\<lambda>k. (Inr JSUndefined, None)))]\<rparr>
   = Inl (JSString ''boom'')"
  by (simp add: CreateRTCSessionDescription_def CreateRTCIceCandidate_def Length_def arg_def
        Value_IsObject_def Object_Set_def Object_New_def call_bind_def call_return_def)

text \<open>
  Claim C7, amended. A descriptor factory returns normally, with an empty or partial record, on
  a missing argument, on an argument that is not an object, and on every object on which
  no check and no read of a recognised name throws: the object is in a set of states
  (\<open>I\<close>, \<open>J\<close>) in which every check of a recognised name returns, every read after
  a check that answered true returns, and which these calls do not leave.
\<close>

theorem descriptor_factories_return_when_reads_return:
  "(I (Value_As_Object (arg info 0)) \<and>
    (\<forall>s k. I s \<longrightarrow> k \<in> {''type'', ''sdp''} \<longrightarrow>
       (\<exists>has s1. Object_Has s k = (Inr has, s1) \<and> I s1 \<and>
          (has \<longrightarrow> (\<exists>v s2. Object_Get s1 k = (Inr v, s2) \<and> I s2))))
    \<longrightarrow> (\<exists>obj. CreateRTCSessionDescription info = Inr obj)) \<and>
   (J (Value_As_Object (arg info 0)) \<and>
    (\<forall>s k. J s \<longrightarrow> k \<in> {''candidate'', ''sdpMLineIndex'', ''sdpMid''} \<longrightarrow>
       (\<exists>has s1. Object_Has s k = (Inr has, s1) \<and> J s1 \<and>
          (has \<longrightarrow> (\<exists>v s2. Object_Get s1 k = (Inr v, s2) \<and> J s2))))
    \<longrightarrow> (\<exists>obj. CreateRTCIceCandidate info = Inr obj)) \<and>
   (\<not> (Length info > 0 \<and> Value_IsObject (arg info 0)) \<longrightarrow>
      CreateRTCSessionDescription info = Inr [] \<and> CreateRTCIceCandidate info = Inr [])"
  using sd_returns [of I info] ice_returns [of J info] sd_not_object [of info]
    ice_not_object [of info]
  by blast

theorem descriptor_factories_return_when_reads_return_witness:
  "(\<exists>obj. CreateRTCSessionDescription
            \<lparr>Env = (),
             argv = [JSObject (Ordinary [(''type'', AccessorProp (Inr (JSString ''offer'')) None),
                                         (''sdp'', DataProp (JSNumber 3))])]\<rparr> = Inr obj) \<and>
   (\<exists>obj. CreateRTCIceCandidate
            \<lparr>Env = (),
             argv = [JSObject (Exotic (\<lambda>k. (Inr (k = ''sdpMid''), None))
                                      (\<lambda>k. (Inr (JSString ''0''), None)))]\<rparr> = Inr obj) \<and>
   CreateRTCSessionDescription \<lparr>Env = (), argv = [JSBoolean True]\<rparr> = Inr [] \<and>
   CreateRTCIceCandidate \<lparr>Env = (), argv = [JSBoolean True]\<rparr> = Inr []"
  using descriptor_factories_return_when_reads_return
          [of "\<lambda>s. s = Ordinary [(''type'', AccessorProp (Inr (JSString ''offer'')) None),
                                 (''sdp'', DataProp (JSNumber 3))]"
              "\<lparr>Env = (),
                argv = [JSObject (Ordinary [(''type'', AccessorProp (Inr (JSString ''offer'')) None),
                                            (''sdp'', DataProp (JSNumber 3))])]\<rparr>"
              "\<lambda>s. False"]
        descriptor_factories_return_when_reads_return
          [of "\<lambda>s. False"
              "\<lparr>Env = (),
                argv = [JSObject (Exotic (\<lambda>k. (Inr (k = ''sdpMid''), None))
                                         (\<lambda>k. (Inr (JSString ''0''), None)))]\<rparr>"
              "\<lambda>s. s = Exotic (\<lambda>k. (Inr (k = ''sdpMid''), None))
                               (\<lambda>k. (Inr (JSString ''0''), None))"]
        descriptor_factories_return_when_reads_return
          [of "\<lambda>s. False" "\<lparr>Env = (), argv = [JSBoolean True]\<rparr>" "\<lambda>s. False"]
  by (simp add: Length_def arg_def Value_IsObject_def Value_IsFunction_def)

text \<open>
  Claim C8. \<^verbatim>\<open>RTCPeerConnection\<close> hands its first argument, unchanged, to the native
  factory \<^verbatim>\<open>PeerConnection::NewInstance\<close> and its outcome is the factory's outcome:
  the object the factory returns, or the exception the factory raises. Called without an
  argument it hands over \<^verbatim>\<open>undefined\<close>.
\<close>

theorem peer_connection_delegates:
  "CreateRTCPeerConnection NewInstance \<lparr>Env = env, argv = configInput # rest\<rparr> =
     NewInstance env configInput \<and>
   CreateRTCPeerConnection NewInstance \<lparr>Env = env, argv = []\<rparr> =
     NewInstance env JSUndefined"
  by (simp add: CreateRTCPeerConnection_def info_simps)

theorem peer_connection_delegates_witness:
  "CreateRTCPeerConnection
     (\<lambda>env c. case c of JSNull \<Rightarrow> Inl (JSString ''bad configuration'') | _ \<Rightarrow> Inr c)
     \<lparr>Env = (), argv = [JSNull, JSNumber 1]\<rparr> = Inl (JSString ''bad configuration'') \<and>
   CreateRTCPeerConnection
     (\<lambda>env c. case c of JSNull \<Rightarrow> Inl (JSString ''bad configuration'') | _ \<Rightarrow> Inr c)
     \<lparr>Env = (), argv = [JSObject (Ordinary [])]\<rparr> = Inr (JSObject (Ordinary [])) \<and>
   CreateRTCPeerConnection
     (\<lambda>env c. case c of JSNull \<Rightarrow> Inl (JSString ''bad configuration'') | _ \<Rightarrow> Inr c)
     \<lparr>Env = (), argv = []\<rparr> = Inr JSUndefined"
  using peer_connection_delegates
          [of "\<lambda>env c. case c of JSNull \<Rightarrow> Inl (JSString ''bad configuration'') | _ \<Rightarrow> Inr c"
              "()" JSNull "[JSNumber 1]"]
        peer_connection_delegates
          [of "\<lambda>env c. case c of JSNull \<Rightarrow> Inl (JSString ''bad configuration'') | _ \<Rightarrow> Inr c"
              "()" "JSObject (Ordinary [])" "[]"]
  by simp

text \<open>
  Claim C9. Both descriptor factories ignore every argument after the first: a call with
  further arguments does what the call with the first argument alone does.
\<close>

theorem trailing_arguments_ignored:
  "CreateRTCSessionDescription \<lparr>Env = env, argv = a # rest\<rparr> =
     CreateRTCSessionDescription \<lparr>Env = env, argv = [a]\<rparr> \<and>
   CreateRTCIceCandidate \<lparr>Env = env, argv = a # rest\<rparr> =
     CreateRTCIceCandidate \<lparr>Env = env, argv = [a]\<rparr>"
  by (simp add: CreateRTCSessionDescription_def CreateRTCIceCandidate_def info_simps
        Object_New_def)

theorem trailing_arguments_ignored_witness:
  "CreateRTCSessionDescription
     \<lparr>Env = (), argv = [JSObject (Ordinary [(''sdp'', DataProp (JSString ''v=0''))]),
                       JSObject (Ordinary [(''type'', DataProp (JSString ''offer''))])]\<rparr>
     = Inr [(''sdp'', DataProp (JSString ''v=0''))] \<and>
   CreateRTCIceCandidate
     \<lparr>Env = (),
      argv = [JSNull, JSObject (Ordinary [(''sdpMid'', DataProp (JSString ''0''))])]\<rparr>
     = Inr []"
  using trailing_arguments_ignored
          [of "()" "JSObject (Ordinary [(''sdp'', DataProp (JSString ''v=0''))])"
              "[JSObject (Ordinary [(''type'', DataProp (JSString ''offer''))])]"]
        trailing_arguments_ignored
          [of "()" JSNull "[JSObject (Ordinary [(''sdpMid'', DataProp (JSString ''0''))])]"]
  by (simp add: CreateRTCSessionDescription_def CreateRTCIceCandidate_def Length_def arg_def
        Value_IsObject_def Value_IsFunction_def Object_Set_def Object_New_def call_bind_def
        call_return_def)



end
